theory Spec2Isabelle
  imports Main "HOL-Library.Multiset"
begin

section \<open>Data model (tickets/models.py)\<close>

text \<open>
  Users, departments and tickets are database rows identified by their primary key (a
  natural number). A \<open>DateTimeField\<close> is an instant with microsecond resolution: it is
  modelled as the integer number of microseconds since the epoch, and a \<open>timedelta\<close> as
  a number of microseconds. \<open>status\<close> and \<open>priority\<close> are \<open>CharField\<close>s: the
  \<open>choices\<close> lists of the model are not enforced by \<open>save()\<close>, so both are strings.
\<close>

type_synonym user_id = nat
type_synonym datetime = int
type_synonym timedelta = int

definition timedelta_hours :: "int \<Rightarrow> timedelta" where
  "timedelta_hours h = h * 3600000000"

definition timedelta_minutes :: "int \<Rightarrow> timedelta" where
  "timedelta_minutes m = m * 60000000"

record department =
  dept_id :: nat
  dept_name :: string

record ticket =
  tid :: nat
  title :: string
  description :: string
  created_by :: user_id
  agent :: "user_id option"
  handler :: "user_id option"
  department :: "nat option"
  status :: string
  completed_at :: "datetime option"
  created_at :: datetime
  sla_due :: "datetime option"
  priority :: string

record comment =
  cid :: nat
  c_ticket :: nat
  c_user :: user_id
  c_text :: string
  c_created_at :: datetime

definition PRIORITY_CHOICES :: "string list" where
  "PRIORITY_CHOICES = [''low'', ''medium'', ''high'', ''urgent'']"

definition STATUS_CHOICES :: "string list" where
  "STATUS_CHOICES = [''pending'', ''in_progress'', ''completed'']"

text \<open>\<open>Ticket.is_completed\<close>.\<close>

definition is_completed :: "ticket \<Rightarrow> bool" where
  "is_completed t = (status t = ''completed'')"

text \<open>
  \<open>Ticket.completed_within_hours\<close>: \<open>not self.completed_at\<close> holds exactly for
  \<open>None\<close> (a datetime is always truthy).
\<close>

definition completed_within_hours :: "ticket \<Rightarrow> int \<Rightarrow> bool" where
  "completed_within_hours t hours =
     (case completed_at t of
        None \<Rightarrow> False
      | Some c \<Rightarrow> c - created_at t \<le> timedelta_hours hours)"

text \<open>\<open>Ticket.sla_status\<close>.\<close>

definition sla_status :: "ticket \<Rightarrow> string" where
  "sla_status t =
     (if status t \<noteq> ''completed'' then ''open''
      else if completed_within_hours t 4 then ''on_time''
      else ''delayed'')"

section \<open>Users, groups, requests and the database\<close>

record user =
  uid :: user_id
  is_superuser :: bool

record auth_group =
  gid :: nat
  g_name :: string
  user_set :: "user_id list"

text \<open>
  The session carries the two keys written by \<open>custom_login\<close>:
  \<open>handler_logged_in\<close> and \<open>handler_user\<close>.
\<close>

record session =
  handler_logged_in :: bool
  handler_user :: "string option"

datatype http_method = GET | POST

text \<open>
  Of a request the views read the method (\<open>request.method\<close>, here \<open>req_method\<close>), the
  user and the session; \<open>user = None\<close> is Django's \<open>AnonymousUser\<close>. The posted fields
  are the further arguments of each view.
\<close>

record request =
  req_method :: http_method
  user :: "user option"
  session :: session

text \<open>
  Beside its rows the ticket table has its key sequence: \<open>ticket_seq\<close> is the largest
  key the table has handed out so far.
\<close>

record db =
  tickets :: "ticket list"
  ticket_seq :: nat
  comments :: "comment list"
  departments :: "department list"
  auth_groups :: "auth_group list"

datatype level = SUCCESS | ERROR

text \<open>
  A view answers with a redirect to a named URL or renders a template; of the template
  context only the \<open>tickets\<close> entry is kept.
\<close>

datatype http_response = Redirect string | Render string "ticket list"

datatype error = Http404 | IntegrityError | ValueError | OverflowError

text \<open>
  What a view leaves behind: the database after the request, the messages it queued with
  \<open>messages.success\<close> / \<open>messages.error\<close>, and its response.
\<close>

record outcome =
  store :: db
  flash :: "(level \<times> string) list"
  response :: http_response

type_synonym result = "error + outcome"

subsection \<open>Query helpers\<close>

text \<open>
  \<open>QuerySet.first()\<close> on a queryset without ordering orders by primary key and returns
  the first row, or \<open>None\<close>.
\<close>

definition qs_first :: "('a \<Rightarrow> nat) \<Rightarrow> 'a list \<Rightarrow> 'a option" where
  "qs_first pk xs = (case sort_key pk xs of [] \<Rightarrow> None | x # _ \<Rightarrow> Some x)"

text \<open>\<open>get_object_or_404(Ticket, id=ticket_id)\<close>: \<open>None\<close> stands for \<open>Http404\<close>.\<close>

definition get_object_or_404 :: "ticket list \<Rightarrow> nat \<Rightarrow> ticket option" where
  "get_object_or_404 ts i = find (\<lambda>t. tid t = i) ts"

text \<open>\<open>ticket.save()\<close> of an existing row: the row with that primary key is replaced.\<close>

definition save :: "ticket \<Rightarrow> ticket list \<Rightarrow> ticket list" where
  "save t ts = map (\<lambda>x. if tid x = tid t then t else x) ts"

text \<open>
  \<open>order_by('-created_at')\<close>. The database leaves the order of rows with equal
  \<open>created_at\<close> open; the model keeps them in table order.
\<close>

definition order_by_created_at_desc :: "ticket list \<Rightarrow> ticket list" where
  "order_by_created_at_desc ts = sort_key (\<lambda>t. - created_at t) ts"

text \<open>The queryset filter \<open>status__in=[...]\<close>.\<close>

definition status_in :: "string list \<Rightarrow> ticket \<Rightarrow> bool" where
  "status_in vs t = (status t \<in> set vs)"

text \<open>
  The primary key of a new row. The key column is an \<open>AutoField\<close>: the new key is one
  more than the largest key that is in the table or was ever handed out, so the key of a
  deleted row is not used again.
\<close>

definition next_id :: "nat \<Rightarrow> nat list \<Rightarrow> nat" where
  "next_id seq ids = Suc (max seq (fold max ids 0))"



text \<open>\<open>str(n)\<close> for a count, as the f-string of \<open>delete_selected\<close> prints it.\<close>

definition digit_char :: "nat \<Rightarrow> char" where
  "digit_char n = ''0123456789'' ! n"

fun str_nat :: "nat \<Rightarrow> string" where
  "str_nat n = (if n < 10 then [digit_char n] else str_nat (n div 10) @ [digit_char (n mod 10)])"

declare str_nat.simps [simp del]

section \<open>Views (tickets/views.py)\<close>

definition is_admin :: "user \<Rightarrow> bool" where
  "is_admin u = is_superuser u"

definition in_group :: "db \<Rightarrow> string \<Rightarrow> user \<Rightarrow> bool" where
  "in_group d n u = list_ex (\<lambda>g. g_name g = n \<and> uid u \<in> set (user_set g)) (auth_groups d)"

definition is_agent :: "db \<Rightarrow> user \<Rightarrow> bool" where
  "is_agent d u = in_group d ''Agent'' u"

definition is_handler :: "db \<Rightarrow> user \<Rightarrow> bool" where
  "is_handler d u = in_group d ''Handler'' u"

text \<open>
  \<open>@login_required\<close> and a failed \<open>@user_passes_test\<close> both redirect to the login
  page and leave the database alone.
\<close>

definition redirect_to_login :: "db \<Rightarrow> result" where
  "redirect_to_login d = Inr \<lparr>store = d, flash = [], response = Redirect ''login''\<rparr>"

text \<open>\<open>user_tickets\<close>.\<close>

definition visible_to_owner :: "datetime \<Rightarrow> ticket \<Rightarrow> bool" where
  "visible_to_owner two_minutes_ago t =
     (status_in [''pending'', ''in_progress''] t
      \<or> (status t = ''completed''
          \<and> (case completed_at t of None \<Rightarrow> False | Some c \<Rightarrow> c > two_minutes_ago)))"

definition user_tickets :: "datetime \<Rightarrow> db \<Rightarrow> request \<Rightarrow> result" where
  "user_tickets now d r =
     (case user r of
        None \<Rightarrow> redirect_to_login d
      | Some u \<Rightarrow>
          let two_minutes_ago = now - timedelta_minutes 2;
              ts = filter (visible_to_owner two_minutes_ago)
                     (filter (\<lambda>t. created_by t = uid u) (tickets d))
          in Inr \<lparr>store = d, flash = [],
                  response = Render ''tickets/user_tickets.html'' (order_by_created_at_desc ts)\<rparr>)"

text \<open>
  \<open>submit_ticket\<close>. The posted department id is taken as already parsed. \<open>title\<close> and
  \<open>description\<close> are \<open>None\<close> when the form does not send them; the columns are
  \<open>NOT NULL\<close>, so \<open>create\<close> then fails with an \<open>IntegrityError\<close>.
\<close>

definition submit_ticket ::
  "datetime \<Rightarrow> db \<Rightarrow> request \<Rightarrow> string option \<Rightarrow> string option \<Rightarrow> nat option \<Rightarrow> result" where
  "submit_ticket now d r title_p description_p department_id =
     (case user r of
        None \<Rightarrow> redirect_to_login d
      | Some u \<Rightarrow>
          if req_method r = POST then
            let dept = (case department_id of
                          None \<Rightarrow> None
                        | Some i \<Rightarrow> if i \<in> set (map dept_id (departments d)) then Some i else None);
                handler_group = qs_first gid (filter (\<lambda>g. g_name g = ''Handler'') (auth_groups d));
                handler_user = (case handler_group of
                                  None \<Rightarrow> None
                                | Some g \<Rightarrow> qs_first (\<lambda>x. x) (user_set g))
            in (case (title_p, description_p) of
                  (Some ti, Some de) \<Rightarrow>
                    Inr \<lparr>store = d\<lparr>tickets := tickets d @
                            [\<lparr>tid = next_id (ticket_seq d) (map tid (tickets d)),
                              title = ti, description = de,
                              created_by = uid u, agent = None, handler = handler_user,
                              department = dept, status = ''pending'', completed_at = None,
                              created_at = now, sla_due = None, priority = ''medium''\<rparr>],
                            ticket_seq := next_id (ticket_seq d) (map tid (tickets d))\<rparr>,
                         flash = [(SUCCESS, ''Ticket submitted successfully.'')],
                         response = Redirect ''user_tickets''\<rparr>
                | _ \<Rightarrow> Inl IntegrityError)
          else Inr \<lparr>store = d, flash = [], response = Render ''tickets/submit_ticket.html'' []\<rparr>)"

text \<open>\<open>admin_dashboard\<close> (the supervisory review).\<close>

definition admin_dashboard ::
  "db \<Rightarrow> request \<Rightarrow> nat \<Rightarrow> string option \<Rightarrow> nat option \<Rightarrow> result" where
  "admin_dashboard d r ticket_id priority_p department_id =
     (case user r of
        None \<Rightarrow> redirect_to_login d
      | Some u \<Rightarrow>
          if \<not> is_admin u then redirect_to_login d
          else if req_method r = POST then
            (case get_object_or_404 (tickets d) ticket_id of
               None \<Rightarrow> Inl Http404
             | Some t \<Rightarrow>
                 let t1 = (case priority_p of
                             None \<Rightarrow> t
                           | Some p \<Rightarrow> if p \<noteq> [] then t\<lparr>priority := p\<rparr> else t);
                     t2 = (case department_id of
                             None \<Rightarrow> t1
                           | Some i \<Rightarrow>
                               if i \<in> set (map dept_id (departments d))
                               then t1\<lparr>department := Some i\<rparr>
                               else t1\<lparr>department := None\<rparr>)
                 in Inr \<lparr>store = d\<lparr>tickets := save t2 (tickets d)\<rparr>,
                         flash = [(SUCCESS, ''Ticket updated by admin (supervisor).'')],
                         response = Redirect ''admin_dashboard''\<rparr>)
          else Inr \<lparr>store = d, flash = [],
                    response = Render ''tickets/admin_dashboard.html''
                                 (order_by_created_at_desc (tickets d))\<rparr>)"

text \<open>
  The body shared, line for line, by the update branches of \<open>agent_dashboard\<close> and
  \<open>handler_dashboard\<close>: priority and status are written when truthy, and
  \<open>completed_at\<close> is stamped when the posted status is \<open>'completed'\<close> and cleared in
  every other case.
\<close>

definition apply_update :: "datetime \<Rightarrow> string option \<Rightarrow> string option \<Rightarrow> ticket \<Rightarrow> ticket" where
  "apply_update now priority_p status_p t =
     (let t1 = (case priority_p of
                  None \<Rightarrow> t
                | Some p \<Rightarrow> if p \<noteq> [] then t\<lparr>priority := p\<rparr> else t);
          t2 = (case status_p of
                  None \<Rightarrow> t1
                | Some s \<Rightarrow> if s \<noteq> [] then t1\<lparr>status := s\<rparr> else t1)
      in if status_p = Some ''completed''
         then t2\<lparr>completed_at := Some now\<rparr>
         else t2\<lparr>completed_at := None\<rparr>)"

text \<open>\<open>agent_dashboard\<close>.\<close>

definition agent_dashboard ::
  "datetime \<Rightarrow> db \<Rightarrow> request \<Rightarrow> nat \<Rightarrow> string option \<Rightarrow> string option \<Rightarrow> result" where
  "agent_dashboard now d r ticket_id priority_p status_p =
     (case user r of
        None \<Rightarrow> redirect_to_login d
      | Some u \<Rightarrow>
          if \<not> is_agent d u then redirect_to_login d
          else if req_method r = POST then
            (case get_object_or_404 (tickets d) ticket_id of
               None \<Rightarrow> Inl Http404
             | Some t \<Rightarrow>
                 if agent t = None \<or> agent t = Some (uid u) then
                   Inr \<lparr>store = d\<lparr>tickets :=
                                   save (apply_update now priority_p status_p
                                           (t\<lparr>agent := Some (uid u)\<rparr>)) (tickets d)\<rparr>,
                        flash = [(SUCCESS, ''Task updated successfully!'')],
                        response = Redirect ''agent_dashboard''\<rparr>
                 else
                   Inr \<lparr>store = d,
                        flash = [(ERROR, ''You are not allowed to update this ticket.'')],
                        response = Redirect ''agent_dashboard''\<rparr>)
          else Inr \<lparr>store = d, flash = [],
                    response = Render ''tickets/agent_dashboard.html''
                      (order_by_created_at_desc
                         (filter (\<lambda>t. agent t = Some (uid u)) (tickets d)))\<rparr>)"

text \<open>\<open>handler_dashboard\<close>.\<close>

definition handler_dashboard ::
  "datetime \<Rightarrow> db \<Rightarrow> request \<Rightarrow> nat \<Rightarrow> string option \<Rightarrow> string option \<Rightarrow> result" where
  "handler_dashboard now d r ticket_id priority_p status_p =
     (case user r of
        None \<Rightarrow> redirect_to_login d
      | Some u \<Rightarrow>
          if \<not> (handler_logged_in (session r) \<or> is_handler d u) then redirect_to_login d
          else if req_method r = POST then
            (case get_object_or_404 (tickets d) ticket_id of
               None \<Rightarrow> Inl Http404
             | Some t \<Rightarrow>
                 if handler t = None \<or> handler t = Some (uid u)
                    \<or> handler_user (session r) = Some ''handler'' then
                   let t1 = apply_update now priority_p status_p t;
                       t2 = (if handler t1 = None \<and> is_handler d u
                             then t1\<lparr>handler := Some (uid u)\<rparr> else t1)
                   in Inr \<lparr>store = d\<lparr>tickets := save t2 (tickets d)\<rparr>,
                           flash = [(SUCCESS, ''Ticket updated successfully.'')],
                           response = Redirect ''handler_dashboard''\<rparr>
                 else
                   Inr \<lparr>store = d,
                        flash = [(ERROR, ''You are not allowed to update this ticket.'')],
                        response = Redirect ''handler_dashboard''\<rparr>)
          else Inr \<lparr>store = d, flash = [],
                    response = Render ''tickets/handler_dashboard.html''
                      (order_by_created_at_desc
                         (filter (\<lambda>t. handler t = Some (uid u) \<or> handler t = None) (tickets d)))\<rparr>)"

text \<open>
  \<open>delete_ticket\<close>. \<open>ticket.delete()\<close> removes the row and, through
  \<open>on_delete=models.CASCADE\<close> of \<open>Comment.ticket\<close>, every comment of the ticket.
\<close>

definition delete_ticket :: "db \<Rightarrow> request \<Rightarrow> nat \<Rightarrow> result" where
  "delete_ticket d r ticket_id =
     (case user r of
        None \<Rightarrow> redirect_to_login d
      | Some u \<Rightarrow>
          if \<not> is_admin u then redirect_to_login d
          else
            (case get_object_or_404 (tickets d) ticket_id of
               None \<Rightarrow> Inl Http404
             | Some t \<Rightarrow>
                 if status t \<noteq> ''completed'' then
                   Inr \<lparr>store = d,
                        flash = [(ERROR, ''Only completed tickets can be deleted.'')],
                        response = Redirect ''admin_dashboard''\<rparr>
                 else
                   Inr \<lparr>store = d\<lparr>tickets := filter (\<lambda>x. tid x \<noteq> tid t) (tickets d),
                                   comments := filter (\<lambda>c. c_ticket c \<noteq> tid t) (comments d)\<rparr>,
                        flash = [(SUCCESS, ''Ticket deleted successfully.'')],
                        response = Redirect ''admin_dashboard''\<rparr>))"

text \<open>
  \<open>mark_all_completed\<close>. The number of rows that \<open>update\<close> returns is dropped by the
  view; the message is a constant.
\<close>

definition mark_all_completed :: "datetime \<Rightarrow> db \<Rightarrow> request \<Rightarrow> result" where
  "mark_all_completed now d r =
     (case user r of
        None \<Rightarrow> redirect_to_login d
      | Some u \<Rightarrow>
          if \<not> is_admin u then redirect_to_login d
          else
            Inr \<lparr>store = d\<lparr>tickets :=
                    map (\<lambda>t. if status_in [''pending'', ''in_progress''] t
                             then t\<lparr>status := ''completed'', completed_at := Some now\<rparr>
                             else t) (tickets d)\<rparr>,
                 flash = [(SUCCESS, ''All tickets marked as completed.'')],
                 response = Redirect ''admin_dashboard''\<rparr>)"


section \<open>Observing a result\<close>

text \<open>The database a view leaves behind, and the messages and response it answers with.\<close>

definition after :: "result \<Rightarrow> db option" where
  "after res = (case res of Inl _ \<Rightarrow> None | Inr out \<Rightarrow> Some (store out))"

definition reply :: "result \<Rightarrow> ((level \<times> string) list \<times> http_response) option" where
  "reply res = (case res of Inl _ \<Rightarrow> None | Inr out \<Rightarrow> Some (flash out, response out))"

text \<open>The ticket with primary key \<open>i\<close> after a view has run.\<close>

definition ticket_after :: "result \<Rightarrow> nat \<Rightarrow> ticket option" where
  "ticket_after res i =
     (case res of Inl _ \<Rightarrow> None | Inr out \<Rightarrow> get_object_or_404 (tickets (store out)) i)"

text \<open>
  Reading a plain decimal numeral (one or more of the digits 0 to 9), on which Python's
  \<open>int\<close> gives the same value: it reads the posted ids of the examples and reads back
  the count printed in a message.
\<close>

definition digit_val :: "char \<Rightarrow> int option" where
  "digit_val c =
     map_of [(CHR ''0'', 0), (CHR ''1'', 1), (CHR ''2'', 2), (CHR ''3'', 3), (CHR ''4'', 4),
             (CHR ''5'', 5), (CHR ''6'', 6), (CHR ''7'', 7), (CHR ''8'', 8), (CHR ''9'', 9)] c"

fun decimal_acc :: "int \<Rightarrow> string \<Rightarrow> int option" where
  "decimal_acc a [] = Some a"
| "decimal_acc a (c # cs) =
     (case digit_val c of None \<Rightarrow> None | Some v \<Rightarrow> decimal_acc (10 * a + v) cs)"

definition decimal_int :: "string \<Rightarrow> int option" where
  "decimal_int s = (if s = [] then None else decimal_acc 0 s)"

text \<open>The invariant of the data model: \<open>completed_at\<close> is set exactly on completed tickets.\<close>

definition completed_at_invariant :: "ticket \<Rightarrow> bool" where
  "completed_at_invariant t = ((completed_at t \<noteq> None) = (status t = ''completed''))"

definition db_invariant :: "db \<Rightarrow> bool" where
  "db_invariant d = list_all completed_at_invariant (tickets d)"

section \<open>Example data\<close>

definition ex_ticket :: "nat \<Rightarrow> string \<Rightarrow> datetime option \<Rightarrow> user_id option \<Rightarrow> ticket" where
  "ex_ticket i s c h =
     \<lparr>tid = i, title = ''printer'', description = ''no toner'', created_by = 7, agent = None,
      handler = h, department = None, status = s, completed_at = c, created_at = int i,
      sla_due = None, priority = ''medium''\<rparr>"

definition ex_comment :: "nat \<Rightarrow> nat \<Rightarrow> comment" where
  "ex_comment i t = \<lparr>cid = i, c_ticket = t, c_user = 7, c_text = ''ping'', c_created_at = 50\<rparr>"

definition ex_groups :: "auth_group list" where
  "ex_groups = [\<lparr>gid = 1, g_name = ''Handler'', user_set = [5, 3]\<rparr>,
                \<lparr>gid = 2, g_name = ''Agent'', user_set = [4]\<rparr>]"

definition ex_db :: db where
  "ex_db = \<lparr>tickets = [ex_ticket 1 ''pending'' None None,
                       ex_ticket 2 ''in_progress'' None (Some 3),
                       ex_ticket 3 ''completed'' (Some 100) (Some 3),
                       ex_ticket 4 ''pending'' None (Some 5)],
            ticket_seq = 4,
            comments = [ex_comment 1 3, ex_comment 2 1, ex_comment 3 3],
            departments = [],
            auth_groups = ex_groups\<rparr>"

text \<open>The example database after handler 3 has moved the unassigned ticket 1 to \<open>in_progress\<close>.\<close>

definition ex_db_claimed :: db where
  "ex_db_claimed = ex_db\<lparr>tickets := [ex_ticket 1 ''in_progress'' None (Some 3),
                                      ex_ticket 2 ''in_progress'' None (Some 3),
                                      ex_ticket 3 ''completed'' (Some 100) (Some 3),
                                      ex_ticket 4 ''pending'' None (Some 5)]\<rparr>"


definition ex_request :: "http_method \<Rightarrow> nat \<Rightarrow> bool \<Rightarrow> request" where
  "ex_request m i su =
     \<lparr>req_method = m, user = Some \<lparr>uid = i, is_superuser = su\<rparr>,
      session = \<lparr>handler_logged_in = False, handler_user = None\<rparr>\<rparr>"

text \<open>
  A request of user \<open>i\<close> whose session went through the fallback of \<open>custom_login\<close>:
  both session keys are set, and the user is whoever was logged in before.
\<close>

definition ex_legacy_request :: "nat \<Rightarrow> request" where
  "ex_legacy_request i =
     \<lparr>req_method = POST, user = Some \<lparr>uid = i, is_superuser = False\<rparr>,
      session = \<lparr>handler_logged_in = True, handler_user = Some ''handler''\<rparr>\<rparr>"

section \<open>Facts about the query helpers and the shared update\<close>

lemma tid_apply_update: "tid (apply_update now p s t) = tid t"
  by (simp add: apply_update_def Let_def split: option.splits)

lemma handler_apply_update: "handler (apply_update now p s t) = handler t"
  by (simp add: apply_update_def Let_def split: option.splits)

lemma get_object_tid: "get_object_or_404 ts i = Some t \<Longrightarrow> tid t = i"
  by (auto simp: get_object_or_404_def find_Some_iff)

lemma get_after_save:
  "get_object_or_404 ts i = Some t \<Longrightarrow> tid t' = i \<Longrightarrow> get_object_or_404 (save t' ts) i = Some t'"
  unfolding get_object_or_404_def save_def
  by (induction ts) (auto split: if_splits)

lemma apply_update_no_status:
  "s = None \<or> s = Some [] \<Longrightarrow>
   status (apply_update now p s t) = status t \<and> completed_at (apply_update now p s t) = None"
  by (auto simp: apply_update_def Let_def split: option.splits)

lemma handler_dashboard_allowed:
  assumes "user r = Some u" "req_method r = POST"
    "handler_logged_in (session r) \<or> is_handler d u"
    "get_object_or_404 (tickets d) i = Some t"
    "handler t = None \<or> handler t = Some (uid u) \<or> handler_user (session r) = Some ''handler''"
  shows "handler_dashboard now d r i pp sp =
      Inr \<lparr>store = d\<lparr>tickets := save (if handler t = None \<and> is_handler d u
                                       then (apply_update now pp sp t)\<lparr>handler := Some (uid u)\<rparr>
                                       else apply_update now pp sp t) (tickets d)\<rparr>,
           flash = [(SUCCESS, ''Ticket updated successfully.'')],
           response = Redirect ''handler_dashboard''\<rparr>"
  using assms by (simp add: handler_dashboard_def Let_def handler_apply_update)

lemma handler_dashboard_denied:
  assumes "user r = Some u" "req_method r = POST"
    "handler_logged_in (session r) \<or> is_handler d u"
    "get_object_or_404 (tickets d) i = Some t"
    "\<not> (handler t = None \<or> handler t = Some (uid u) \<or> handler_user (session r) = Some ''handler'')"
  shows "handler_dashboard now d r i pp sp =
      Inr \<lparr>store = d, flash = [(ERROR, ''You are not allowed to update this ticket.'')],
           response = Redirect ''handler_dashboard''\<rparr>"
  using assms by (auto simp: handler_dashboard_def)

lemma agent_dashboard_allowed:
  assumes "user r = Some u" "req_method r = POST" "is_agent d u"
    "get_object_or_404 (tickets d) i = Some t"
    "agent t = None \<or> agent t = Some (uid u)"
  shows "agent_dashboard now d r i pp sp =
      Inr \<lparr>store = d\<lparr>tickets := save (apply_update now pp sp (t\<lparr>agent := Some (uid u)\<rparr>)) (tickets d)\<rparr>,
           flash = [(SUCCESS, ''Task updated successfully!'')],
           response = Redirect ''agent_dashboard''\<rparr>"
  using assms by (simp add: agent_dashboard_def)

lemma ticket_after_handler_allowed:
  assumes "user r = Some u" "req_method r = POST"
    "handler_logged_in (session r) \<or> is_handler d u"
    "get_object_or_404 (tickets d) i = Some t"
    "handler t = None \<or> handler t = Some (uid u) \<or> handler_user (session r) = Some ''handler''"
  shows "ticket_after (handler_dashboard now d r i pp sp) i =
      Some (if handler t = None \<and> is_handler d u
            then (apply_update now pp sp t)\<lparr>handler := Some (uid u)\<rparr>
            else apply_update now pp sp t)"
proof -
  have i: "tid t = i" using assms(4) by (rule get_object_tid)
  show ?thesis
    unfolding handler_dashboard_allowed [OF assms] ticket_after_def
    using get_after_save [OF assms(4)] i by (simp add: tid_apply_update)
qed

lemma ticket_after_agent_allowed:
  assumes "user r = Some u" "req_method r = POST" "is_agent d u"
    "get_object_or_404 (tickets d) i = Some t"
    "agent t = None \<or> agent t = Some (uid u)"
  shows "ticket_after (agent_dashboard now d r i pp sp) i =
      Some (apply_update now pp sp (t\<lparr>agent := Some (uid u)\<rparr>))"
proof -
  have i: "tid t = i" using assms(4) by (rule get_object_tid)
  show ?thesis
    unfolding agent_dashboard_allowed [OF assms] ticket_after_def
    using get_after_save [OF assms(4)] i by (simp add: tid_apply_update)
qed

section \<open>Updates through the agent and handler dashboards\<close>

text \<open>
  Claim C10. An update through \<open>handler_dashboard\<close> or \<open>agent_dashboard\<close> that passes
  the actor-binding check and carries no status value (the field is missing or empty, as in
  a priority-only update) leaves the ticket's status as it was and sets \<open>completed_at\<close>
  to \<open>None\<close>; a completed ticket thereby loses its completion timestamp.
\<close>

theorem update_without_status_clears_completed_at:
  assumes "sp = None \<or> sp = Some []"
    and "user r = Some u" and "req_method r = POST"
    and "get_object_or_404 (tickets d) i = Some t"
  shows
   "((handler_logged_in (session r) \<or> is_handler d u) \<and>
     (handler t = None \<or> handler t = Some (uid u) \<or> handler_user (session r) = Some ''handler'')
       \<longrightarrow> (\<exists>t'. ticket_after (handler_dashboard now d r i pp sp) i = Some t' \<and>
                 status t' = status t \<and> completed_at t' = None)) \<and>
    (is_agent d u \<and> (agent t = None \<or> agent t = Some (uid u))
       \<longrightarrow> (\<exists>t'. ticket_after (agent_dashboard now d r i pp sp) i = Some t' \<and>
                 status t' = status t \<and> completed_at t' = None))"
proof (intro conjI impI)
  assume h: "(handler_logged_in (session r) \<or> is_handler d u) \<and>
     (handler t = None \<or> handler t = Some (uid u) \<or> handler_user (session r) = Some ''handler'')"
  show "\<exists>t'. ticket_after (handler_dashboard now d r i pp sp) i = Some t' \<and>
                 status t' = status t \<and> completed_at t' = None"
    using ticket_after_handler_allowed [OF assms(2,3) _ assms(4), of now pp sp] h
      apply_update_no_status [OF assms(1), of now pp t]
    by auto
next
  assume a: "is_agent d u \<and> (agent t = None \<or> agent t = Some (uid u))"
  show "\<exists>t'. ticket_after (agent_dashboard now d r i pp sp) i = Some t' \<and>
                 status t' = status t \<and> completed_at t' = None"
    using ticket_after_agent_allowed [OF assms(2,3) _ assms(4), of now pp sp] a
      apply_update_no_status [OF assms(1), of now pp "t\<lparr>agent := Some (uid u)\<rparr>"]
    by auto
qed

theorem update_without_status_clears_completed_at_witness:
  "ticket_after (handler_dashboard 500 ex_db (ex_request POST 3 False) 3 (Some ''high'') None) 3
     = Some ((ex_ticket 3 ''completed'' None (Some 3))\<lparr>priority := ''high''\<rparr>) \<and>
   ticket_after (agent_dashboard 500 ex_db (ex_request POST 4 False) 3 (Some ''high'') (Some [])) 3
     = Some ((ex_ticket 3 ''completed'' None (Some 3))\<lparr>priority := ''high'', agent := Some 4\<rparr>)"
  using update_without_status_clears_completed_at
          [of None "ex_request POST 3 False" "\<lparr>uid = 3, is_superuser = False\<rparr>" ex_db 3
              "ex_ticket 3 ''completed'' (Some 100) (Some 3)" 500 "Some ''high''"]
        update_without_status_clears_completed_at
          [of "Some []" "ex_request POST 4 False" "\<lparr>uid = 4, is_superuser = False\<rparr>" ex_db 3
              "ex_ticket 3 ''completed'' (Some 100) (Some 3)" 500 "Some ''high''"]
  by (simp add: ex_db_def ex_ticket_def ex_groups_def ex_request_def get_object_or_404_def
      is_handler_def is_agent_def in_group_def handler_dashboard_def agent_dashboard_def
      ticket_after_def save_def apply_update_def)

text \<open>
  Claim C1. The claim is that after every operation \<open>completed_at\<close> is set exactly on
  the completed tickets. Evaluated on the example database, which satisfies the invariant,
  a priority-only update of the completed ticket 3 by its handler keeps the status
  \<open>completed\<close> and clears \<open>completed_at\<close>: the database after the update violates the
  invariant.
\<close>

theorem priority_only_update_breaks_completed_at_invariant:
  "db_invariant ex_db \<and>
   ticket_after (handler_dashboard 500 ex_db (ex_request POST 3 False) 3 (Some ''high'') None) 3
     = Some ((ex_ticket 3 ''completed'' None (Some 3))\<lparr>priority := ''high''\<rparr>) \<and>
   map_option db_invariant
     (after (handler_dashboard 500 ex_db (ex_request POST 3 False) 3 (Some ''high'') None))
     = Some False"
  by (simp add: ex_db_def ex_ticket_def ex_groups_def ex_request_def get_object_or_404_def
      is_handler_def in_group_def handler_dashboard_def db_invariant_def completed_at_invariant_def
      ticket_after_def after_def save_def apply_update_def)

text \<open>
  Claim C9. The claim is that an update with a status or priority outside the allowed sets
  is rejected with a validation error and leaves the ticket unchanged. Evaluated on the
  example database: the handler of ticket 4 posts the status \<open>bogus\<close> and the
  priority \<open>whenever\<close>, neither of them among the choices the model declares, and so
  does agent 4 for the same ticket. Both views report success and the ticket is saved
  with both values.
\<close>

theorem invalid_status_and_priority_are_stored:
  "''bogus'' \<notin> set STATUS_CHOICES \<and> ''whenever'' \<notin> set PRIORITY_CHOICES \<and>
   reply (handler_dashboard 500 ex_db (ex_request POST 5 False) 4 (Some ''whenever'') (Some ''bogus''))
     = Some ([(SUCCESS, ''Ticket updated successfully.'')], Redirect ''handler_dashboard'') \<and>
   ticket_after (handler_dashboard 500 ex_db (ex_request POST 5 False) 4 (Some ''whenever'') (Some ''bogus'')) 4
     = Some ((ex_ticket 4 ''bogus'' None (Some 5))\<lparr>priority := ''whenever''\<rparr>) \<and>
   after (handler_dashboard 500 ex_db (ex_request POST 5 False) 4 (Some ''whenever'') (Some ''bogus''))
     \<noteq> Some ex_db \<and>
   reply (agent_dashboard 500 ex_db (ex_request POST 4 False) 4 (Some ''whenever'') (Some ''bogus''))
     = Some ([(SUCCESS, ''Task updated successfully!'')], Redirect ''agent_dashboard'') \<and>
   ticket_after (agent_dashboard 500 ex_db (ex_request POST 4 False) 4 (Some ''whenever'') (Some ''bogus'')) 4
     = Some ((ex_ticket 4 ''bogus'' None (Some 5))\<lparr>priority := ''whenever'', agent := Some 4\<rparr>) \<and>
   after (agent_dashboard 500 ex_db (ex_request POST 4 False) 4 (Some ''whenever'') (Some ''bogus''))
     \<noteq> Some ex_db"
  by (simp add: ex_db_def ex_ticket_def ex_groups_def ex_request_def get_object_or_404_def
      is_handler_def is_agent_def in_group_def handler_dashboard_def agent_dashboard_def
      STATUS_CHOICES_def PRIORITY_CHOICES_def
      ticket_after_def after_def reply_def save_def apply_update_def)

text \<open>
  Claim C3, as stated: an update by actor A of a ticket whose handler is null binds the
  handler to A. On the example database user 7, who is not in the Handler group and whose
  session carries the keys of the special handler login, updates the unassigned ticket 1:
  the update succeeds and the handler of the ticket is still null.
\<close>

theorem legacy_session_update_does_not_bind_counterexample:
  "get_object_or_404 (tickets ex_db) 1 = Some (ex_ticket 1 ''pending'' None None) \<and>
   handler (ex_ticket 1 ''pending'' None None) = None \<and>
   reply (handler_dashboard 500 ex_db (ex_legacy_request 7) 1 (Some ''high'') (Some ''in_progress''))
     = Some ([(SUCCESS, ''Ticket updated successfully.'')], Redirect ''handler_dashboard'') \<and>
   map_option handler
     (ticket_after (handler_dashboard 500 ex_db (ex_legacy_request 7) 1 (Some ''high'') (Some ''in_progress'')) 1)
     = Some None"
  by (simp add: ex_db_def ex_ticket_def ex_groups_def ex_legacy_request_def get_object_or_404_def
      is_handler_def in_group_def handler_dashboard_def
      ticket_after_def reply_def save_def apply_update_def)

text \<open>
  Claim C3, amended. For an actor who passes the access gate of \<open>handler_dashboard\<close>
  and posts an update of an existing ticket: the update succeeds exactly when the
  ticket's handler is null, is the actor, or the session carries
  \<open>handler_user = 'handler'\<close>; an update of a ticket whose handler is null binds the
  handler to the actor when the actor is a member of the Handler group and leaves it null
  when the actor is not; an update of a ticket bound to somebody else by an actor without
  that session key is answered with the error message and leaves the database unchanged.
\<close>

theorem handler_update_binding:
  assumes "user r = Some u" and "req_method r = POST"
    and "handler_logged_in (session r) \<or> is_handler d u"
    and "get_object_or_404 (tickets d) i = Some t"
  shows
   "((reply (handler_dashboard now d r i pp sp)
        = Some ([(SUCCESS, ''Ticket updated successfully.'')], Redirect ''handler_dashboard''))
      = (handler t = None \<or> handler t = Some (uid u)
         \<or> handler_user (session r) = Some ''handler'')) \<and>
    (handler t = None \<and> is_handler d u \<longrightarrow>
       map_option handler (ticket_after (handler_dashboard now d r i pp sp) i) = Some (Some (uid u))) \<and>
    (handler t = None \<and> \<not> is_handler d u \<longrightarrow>
       map_option handler (ticket_after (handler_dashboard now d r i pp sp) i) = Some None) \<and>
    (handler t \<noteq> None \<and> handler t \<noteq> Some (uid u)
       \<and> handler_user (session r) \<noteq> Some ''handler'' \<longrightarrow>
       handler_dashboard now d r i pp sp
         = Inr \<lparr>store = d, flash = [(ERROR, ''You are not allowed to update this ticket.'')],
                response = Redirect ''handler_dashboard''\<rparr>)"
proof -
  let ?ok = "handler t = None \<or> handler t = Some (uid u)
         \<or> handler_user (session r) = Some ''handler''"
  have yes: "?ok \<Longrightarrow> reply (handler_dashboard now d r i pp sp)
        = Some ([(SUCCESS, ''Ticket updated successfully.'')], Redirect ''handler_dashboard'')"
    using handler_dashboard_allowed [OF assms(1,2,3,4), of now pp sp] by (simp add: reply_def)
  have no: "\<not> ?ok \<Longrightarrow> handler_dashboard now d r i pp sp
         = Inr \<lparr>store = d, flash = [(ERROR, ''You are not allowed to update this ticket.'')],
                response = Redirect ''handler_dashboard''\<rparr>"
    using handler_dashboard_denied [OF assms(1,2,3,4), of now pp sp] by simp
  have iff: "(reply (handler_dashboard now d r i pp sp)
        = Some ([(SUCCESS, ''Ticket updated successfully.'')], Redirect ''handler_dashboard''))
      = ?ok"
  proof (cases ?ok)
    case True
    then show ?thesis using yes by simp
  next
    case False
    then show ?thesis using no [OF False] by (simp add: reply_def)
  qed
  have bind: "handler t = None \<and> is_handler d u \<longrightarrow>
       map_option handler (ticket_after (handler_dashboard now d r i pp sp) i) = Some (Some (uid u))"
    using ticket_after_handler_allowed [OF assms(1,2,3,4), of now pp sp] by simp
  have nobind: "handler t = None \<and> \<not> is_handler d u \<longrightarrow>
       map_option handler (ticket_after (handler_dashboard now d r i pp sp) i) = Some None"
    using ticket_after_handler_allowed [OF assms(1,2,3,4), of now pp sp]
    by (simp add: handler_apply_update)
  have rej: "handler t \<noteq> None \<and> handler t \<noteq> Some (uid u)
       \<and> handler_user (session r) \<noteq> Some ''handler'' \<longrightarrow>
       handler_dashboard now d r i pp sp
         = Inr \<lparr>store = d, flash = [(ERROR, ''You are not allowed to update this ticket.'')],
                response = Redirect ''handler_dashboard''\<rparr>"
    using no by auto
  show ?thesis by (intro conjI iff bind nobind rej)
qed

theorem handler_update_binding_witness:
  "after (handler_dashboard 500 ex_db (ex_request POST 3 False) 1 None (Some ''in_progress''))
     = Some ex_db_claimed \<and>
   map_option handler
     (ticket_after (handler_dashboard 500 ex_db (ex_request POST 3 False) 1 None (Some ''in_progress'')) 1)
     = Some (Some 3) \<and>
   handler_dashboard 501 ex_db_claimed (ex_request POST 5 False) 1 None (Some ''completed'')
     = Inr \<lparr>store = ex_db_claimed,
            flash = [(ERROR, ''You are not allowed to update this ticket.'')],
            response = Redirect ''handler_dashboard''\<rparr>"
  using handler_update_binding
          [of "ex_request POST 3 False" "\<lparr>uid = 3, is_superuser = False\<rparr>" ex_db 1
              "ex_ticket 1 ''pending'' None None" 500 None "Some ''in_progress''"]
        handler_update_binding
          [of "ex_request POST 5 False" "\<lparr>uid = 5, is_superuser = False\<rparr>" ex_db_claimed
              1 "ex_ticket 1 ''in_progress'' None (Some 3)" 501 None "Some ''completed''"]
  by (simp add: ex_db_def ex_db_claimed_def ex_ticket_def ex_groups_def ex_request_def
      get_object_or_404_def is_handler_def in_group_def handler_dashboard_def
      ticket_after_def after_def reply_def save_def apply_update_def)

section \<open>The SLA policy\<close>

text \<open>
  Claim C2. \<open>sla_status\<close> is \<open>open\<close> for every ticket whose status is not
  \<open>completed\<close>, whatever its timestamps; for a completed ticket it is \<open>on_time\<close> if
  \<open>completed_at\<close> is set and at most 4 hours (in microseconds) after \<open>created_at\<close>, and
  \<open>delayed\<close> otherwise.
\<close>

theorem sla_status_spec:
  "(status t \<noteq> ''completed'' \<longrightarrow> sla_status t = ''open'') \<and>
   (status t = ''completed'' \<longrightarrow>
      sla_status t =
        (if \<exists>c. completed_at t = Some c \<and> c - created_at t \<le> 4 * 3600 * 1000000
         then ''on_time'' else ''delayed''))"
  by (auto simp: sla_status_def completed_within_hours_def timedelta_hours_def split: option.splits)

theorem sla_status_spec_witness:
  "sla_status (ex_ticket 1 ''pending'' (Some 5) None) = ''open'' \<and>
   sla_status (ex_ticket 1 ''completed'' (Some 14400000001) None) = ''on_time'' \<and>
   sla_status (ex_ticket 1 ''completed'' (Some 14400000002) None) = ''delayed'' \<and>
   sla_status (ex_ticket 1 ''completed'' None None) = ''delayed''"
  using sla_status_spec [of "ex_ticket 1 ''pending'' (Some 5) None"]
    sla_status_spec [of "ex_ticket 1 ''completed'' (Some 14400000001) None"]
    sla_status_spec [of "ex_ticket 1 ''completed'' (Some 14400000002) None"]
    sla_status_spec [of "ex_ticket 1 ''completed'' None None"]
  by (simp add: ex_ticket_def)

section \<open>Administrative operations\<close>

lemma find_filter_other:
  "find (\<lambda>t. tid t = i) (filter (\<lambda>x. tid x \<noteq> i) ts) = None"
  by (induction ts) auto

text \<open>
  Claim C4. For an admin and an existing ticket: \<open>delete_ticket\<close> on a ticket that is
  not completed answers with the error message "Only completed tickets can be deleted."
  and leaves the whole database (the ticket and its comments) unchanged; on a completed
  ticket it succeeds, the ticket is gone, every other ticket stays, and exactly the
  comments of the deleted ticket are removed.
\<close>

theorem delete_ticket_spec:
  assumes "user r = Some u" and "is_superuser u"
    and "get_object_or_404 (tickets d) i = Some t"
  shows
   "(status t \<noteq> ''completed'' \<longrightarrow>
       delete_ticket d r i
         = Inr \<lparr>store = d, flash = [(ERROR, ''Only completed tickets can be deleted.'')],
                response = Redirect ''admin_dashboard''\<rparr>) \<and>
    (status t = ''completed'' \<longrightarrow>
       (\<exists>d'. delete_ticket d r i
                = Inr \<lparr>store = d', flash = [(SUCCESS, ''Ticket deleted successfully.'')],
                       response = Redirect ''admin_dashboard''\<rparr> \<and>
             get_object_or_404 (tickets d') i = None \<and>
             (\<forall>x. x \<in> set (tickets d') \<longleftrightarrow> x \<in> set (tickets d) \<and> tid x \<noteq> i) \<and>
             (\<forall>c. c \<in> set (comments d') \<longleftrightarrow> c \<in> set (comments d) \<and> c_ticket c \<noteq> i)))"
proof -
  have i: "tid t = i" using assms(3) by (rule get_object_tid)
  show ?thesis
    using assms i
    by (auto simp: delete_ticket_def is_admin_def get_object_or_404_def find_filter_other)
qed

theorem delete_ticket_spec_witness:
  "delete_ticket ex_db (ex_request POST 1 True) 1
     = Inr \<lparr>store = ex_db, flash = [(ERROR, ''Only completed tickets can be deleted.'')],
            response = Redirect ''admin_dashboard''\<rparr> \<and>
   map_option (map tid \<circ> tickets) (after (delete_ticket ex_db (ex_request POST 1 True) 3))
     = Some [1, 2, 4] \<and>
   map_option (map cid \<circ> comments) (after (delete_ticket ex_db (ex_request POST 1 True) 3))
     = Some [2]"
  using delete_ticket_spec
          [of "ex_request POST 1 True" "\<lparr>uid = 1, is_superuser = True\<rparr>" ex_db 1
              "ex_ticket 1 ''pending'' None None"]
        delete_ticket_spec
          [of "ex_request POST 1 True" "\<lparr>uid = 1, is_superuser = True\<rparr>" ex_db 3
              "ex_ticket 3 ''completed'' (Some 100) (Some 3)"]
  by (simp add: ex_db_def ex_ticket_def ex_comment_def ex_request_def get_object_or_404_def
      delete_ticket_def is_admin_def after_def)

text \<open>
  Claim C5, as stated: \<open>mark_all_completed\<close> returns the number of tickets it updated.
  The view answers with a constant message and a redirect: on the example database, where
  it updates 3 tickets, and on the same database without tickets, where it updates none,
  the answers are equal.
\<close>

theorem mark_all_completed_reports_no_count_counterexample:
  "length (filter (status_in [''pending'', ''in_progress'']) (tickets ex_db)) = 3 \<and>
   length (filter (status_in [''pending'', ''in_progress'']) (tickets (ex_db\<lparr>tickets := []\<rparr>))) = 0 \<and>
   reply (mark_all_completed 500 ex_db (ex_request POST 1 True))
     = Some ([(SUCCESS, ''All tickets marked as completed.'')], Redirect ''admin_dashboard'') \<and>
   reply (mark_all_completed 500 (ex_db\<lparr>tickets := []\<rparr>) (ex_request POST 1 True))
     = reply (mark_all_completed 500 ex_db (ex_request POST 1 True))"
  by (simp add: ex_db_def ex_ticket_def ex_request_def mark_all_completed_def is_admin_def
      reply_def status_in_def)

text \<open>
  Claim C5, amended. For an admin, \<open>mark_all_completed\<close> sets status to \<open>completed\<close>
  and \<open>completed_at\<close> to the current time on every ticket whose status is \<open>pending\<close>
  or \<open>in_progress\<close>, leaves every other ticket (the completed ones among them) and the
  rest of the database unchanged, and answers with the constant success message and a
  redirect to the admin dashboard, without a count.
\<close>

theorem mark_all_completed_spec:
  assumes "user r = Some u" and "is_superuser u"
  shows
   "\<exists>d'. mark_all_completed now d r
            = Inr \<lparr>store = d', flash = [(SUCCESS, ''All tickets marked as completed.'')],
                   response = Redirect ''admin_dashboard''\<rparr> \<and>
         length (tickets d') = length (tickets d) \<and>
         (\<forall>k < length (tickets d).
            (status (tickets d ! k) = ''pending'' \<or> status (tickets d ! k) = ''in_progress''
               \<longrightarrow> tickets d' ! k = (tickets d ! k)\<lparr>status := ''completed'', completed_at := Some now\<rparr>) \<and>
            (status (tickets d ! k) \<noteq> ''pending'' \<and> status (tickets d ! k) \<noteq> ''in_progress''
               \<longrightarrow> tickets d' ! k = tickets d ! k)) \<and>
         comments d' = comments d \<and> departments d' = departments d \<and> auth_groups d' = auth_groups d"
  using assms by (simp add: mark_all_completed_def is_admin_def status_in_def)

theorem mark_all_completed_spec_witness:
  "map_option (map (\<lambda>t. (tid t, status t, completed_at t)) \<circ> tickets)
     (after (mark_all_completed 500 ex_db (ex_request POST 1 True)))
     = Some [(1, ''completed'', Some 500), (2, ''completed'', Some 500),
             (3, ''completed'', Some 100), (4, ''completed'', Some 500)]"
  using mark_all_completed_spec
          [of "ex_request POST 1 True" "\<lparr>uid = 1, is_superuser = True\<rparr>" 500 ex_db]
  by (simp add: ex_db_def ex_ticket_def ex_request_def mark_all_completed_def is_admin_def
      after_def status_in_def)






lemma digit_val_digit_char: "n < 10 \<Longrightarrow> digit_val (digit_char n) = Some (int n)"
proof -
  have "\<forall>k < 10. digit_val (digit_char k) = Some (int k)"
    by (simp add: eval_nat_numeral All_less_Suc digit_val_def digit_char_def)
  then show "n < 10 \<Longrightarrow> digit_val (digit_char n) = Some (int n)" by blast
qed

lemma decimal_acc_append:
  "decimal_acc a (xs @ [c]) =
     (case decimal_acc a xs of
        None \<Rightarrow> None
      | Some b \<Rightarrow> (case digit_val c of None \<Rightarrow> None | Some v \<Rightarrow> Some (10 * b + v)))"
  by (induction xs arbitrary: a) (auto split: option.splits)

lemma str_nat_not_Nil: "str_nat n \<noteq> []"
  by (subst str_nat.simps) simp

lemma decimal_acc_str_nat: "decimal_acc 0 (str_nat n) = Some (int n)"
proof (induction n rule: str_nat.induct)
  case (1 n)
  show ?case
  proof (cases "n < 10")
    case True
    then show ?thesis
      by (subst str_nat.simps) (simp add: digit_val_digit_char)
  next
    case False
    have m: "n mod 10 < 10" by simp
    have "decimal_acc 0 (str_nat n)
            = decimal_acc 0 (str_nat (n div 10) @ [digit_char (n mod 10)])"
      using False by (subst str_nat.simps) simp
    also have "\<dots> = Some (10 * int (n div 10) + int (n mod 10))"
      using "1.IH" [OF False] digit_val_digit_char [OF m]
      by (simp add: decimal_acc_append)
    also have "10 * int (n div 10) + int (n mod 10) = int n"
      by (simp add: zdiv_int zmod_int)
    finally show ?thesis .
  qed
qed

lemma decimal_int_str_nat: "decimal_int (str_nat n) = Some (int n)"
  by (simp add: decimal_int_def str_nat_not_Nil decimal_acc_str_nat)

lemma str_nat_inj:
  assumes "str_nat m = str_nat n"
  shows "m = n"
proof -
  have "decimal_int (str_nat m) = decimal_int (str_nat n)"
    using assms by (rule arg_cong)
  then show ?thesis by (simp add: decimal_int_str_nat)
qed

lemma str_nat_examples: "str_nat 0 = ''0'' \<and> str_nat 7 = ''7'' \<and> str_nat 12 = ''12'' \<and> str_nat 305 = ''305''"
  by (simp add: str_nat.simps digit_char_def)




section \<open>The owner's ticket list\<close>

lemma visible_to_owner_iff:
  "visible_to_owner (now - timedelta_minutes 2) t =
     (status t = ''pending'' \<or> status t = ''in_progress'' \<or>
      (status t = ''completed'' \<and> (\<exists>c. completed_at t = Some c \<and> now - c < 2 * 60 * 1000000)))"
  by (auto simp: visible_to_owner_def status_in_def timedelta_minutes_def split: option.splits)

lemma order_by_created_at_desc_sorted:
  "sorted_wrt (\<lambda>a b. created_at a \<ge> created_at b) (order_by_created_at_desc ts)"
proof -
  have "sorted (map (\<lambda>t. - created_at t) (sort_key (\<lambda>t. - created_at t) ts))"
    by (rule sorted_sort_key)
  then show ?thesis
    by (simp add: order_by_created_at_desc_def sorted_map)
qed

lemma mset_order_by_created_at_desc: "mset (order_by_created_at_desc ts) = mset ts"
  by (simp add: order_by_created_at_desc_def)

text \<open>
  Claim C7. For a logged-in owner, \<open>user_tickets\<close> lists exactly (with multiplicity) the
  tickets created by the owner that are \<open>pending\<close> or \<open>in_progress\<close>, or are
  \<open>completed\<close> with a \<open>completed_at\<close> less than 2 minutes before now, and the list
  is ordered by \<open>created_at\<close> descending; a ticket of the owner completed more than
  2 minutes ago is not in the list. (The comparison of the source is strict: a ticket
  completed exactly 2 minutes ago is not listed.)
\<close>

theorem user_tickets_spec:
  assumes "user r = Some u"
  shows
   "\<exists>ts. user_tickets now d r
            = Inr \<lparr>store = d, flash = [], response = Render ''tickets/user_tickets.html'' ts\<rparr> \<and>
         mset ts = filter_mset
                     (\<lambda>t. created_by t = uid u \<and>
                          (status t = ''pending'' \<or> status t = ''in_progress'' \<or>
                           (status t = ''completed'' \<and>
                            (\<exists>c. completed_at t = Some c \<and> now - c < 2 * 60 * 1000000))))
                     (mset (tickets d)) \<and>
         sorted_wrt (\<lambda>a b. created_at a \<ge> created_at b) ts \<and>
         (\<forall>t c. created_by t = uid u \<and> status t = ''completed'' \<and> completed_at t = Some c
                 \<and> now - c > 2 * 60 * 1000000 \<longrightarrow> t \<notin> set ts)"
proof -
  let ?vis = "visible_to_owner (now - timedelta_minutes 2)"
  let ?ts = "order_by_created_at_desc
               (filter ?vis (filter (\<lambda>t. created_by t = uid u) (tickets d)))"
  have run: "user_tickets now d r
            = Inr \<lparr>store = d, flash = [], response = Render ''tickets/user_tickets.html'' ?ts\<rparr>"
    using assms by (simp add: user_tickets_def Let_def)
  have m: "mset ?ts = filter_mset
                     (\<lambda>t. created_by t = uid u \<and>
                          (status t = ''pending'' \<or> status t = ''in_progress'' \<or>
                           (status t = ''completed'' \<and>
                            (\<exists>c. completed_at t = Some c \<and> now - c < 2 * 60 * 1000000))))
                     (mset (tickets d))"
    unfolding mset_order_by_created_at_desc mset_filter filter_filter_mset
    by (rule filter_mset_cong) (auto simp: visible_to_owner_iff)
  have s: "sorted_wrt (\<lambda>a b. created_at a \<ge> created_at b) ?ts"
    by (rule order_by_created_at_desc_sorted)
  have x: "\<forall>t c. created_by t = uid u \<and> status t = ''completed'' \<and> completed_at t = Some c
                 \<and> now - c > 2 * 60 * 1000000 \<longrightarrow> t \<notin> set ?ts"
    by (auto simp: order_by_created_at_desc_def visible_to_owner_iff)
  show ?thesis
    by (rule exI [of _ ?ts]) (intro conjI run m s x)
qed

theorem user_tickets_spec_witness:
  "user_tickets 300000000
      (ex_db\<lparr>tickets := [ex_ticket 1 ''completed'' (Some 120000000) None,
                          ex_ticket 2 ''pending'' None None,
                          ex_ticket 3 ''completed'' (Some 240000000) None,
                          (ex_ticket 4 ''pending'' None None)\<lparr>created_by := 8\<rparr>,
                          ex_ticket 5 ''in_progress'' None None]\<rparr>)
      (ex_request GET 7 False)
     = Inr \<lparr>store = ex_db\<lparr>tickets := [ex_ticket 1 ''completed'' (Some 120000000) None,
                          ex_ticket 2 ''pending'' None None,
                          ex_ticket 3 ''completed'' (Some 240000000) None,
                          (ex_ticket 4 ''pending'' None None)\<lparr>created_by := 8\<rparr>,
                          ex_ticket 5 ''in_progress'' None None]\<rparr>,
            flash = [],
            response = Render ''tickets/user_tickets.html''
                         [ex_ticket 5 ''in_progress'' None None,
                          ex_ticket 3 ''completed'' (Some 240000000) None,
                          ex_ticket 2 ''pending'' None None]\<rparr>"
  using user_tickets_spec
          [of "ex_request GET 7 False" "\<lparr>uid = 7, is_superuser = False\<rparr>" 300000000
              "ex_db\<lparr>tickets := [ex_ticket 1 ''completed'' (Some 120000000) None,
                          ex_ticket 2 ''pending'' None None,
                          ex_ticket 3 ''completed'' (Some 240000000) None,
                          (ex_ticket 4 ''pending'' None None)\<lparr>created_by := 8\<rparr>,
                          ex_ticket 5 ''in_progress'' None None]\<rparr>"]
  by (simp add: ex_db_def ex_ticket_def ex_request_def user_tickets_def visible_to_owner_def
      status_in_def timedelta_minutes_def order_by_created_at_desc_def)

section \<open>Submitting a ticket\<close>








text \<open>A new key is above every key in the table and above every key handed out before.\<close>

lemma fold_max_ge: "a \<le> fold max ids (a::nat)"
  by (induction ids arbitrary: a) (auto intro: order_trans [OF max.cobounded2])

lemma fold_max_mem: "i \<in> set ids \<Longrightarrow> i \<le> fold max ids (a::nat)"
proof (induction ids arbitrary: a)
  case Nil
  then show ?case by simp
next
  case (Cons x xs)
  show ?case
  proof (cases "i = x")
    case True
    have "x \<le> max x a" by simp
    also have "\<dots> \<le> fold max xs (max x a)" by (rule fold_max_ge)
    finally show ?thesis using True by simp
  next
    case False
    then have "i \<in> set xs" using Cons.prems by simp
    then show ?thesis using Cons.IH by simp
  qed
qed

lemma next_id_fresh: "i \<in> set ids \<Longrightarrow> i < next_id seq ids"
  using fold_max_mem [of i ids 0] by (simp add: next_id_def)

lemma next_id_above_seq: "seq < next_id seq ids"
  by (simp add: next_id_def)

lemma next_id_least:
  "next_id seq ids = Suc seq \<or> next_id seq ids \<in> Suc ` set ids"
proof -
  have "fold max ids (a::nat) = a \<or> fold max ids a \<in> set ids" for a
    by (induction ids arbitrary: a) (auto simp: max_def)
  from this [of 0] show ?thesis
    by (auto simp: next_id_def max_def)
qed

section \<open>Where the completion invariant is kept\<close>

text \<open>
  Submitting a ticket, the supervisory review and the bulk completion keep the invariant
  of the data model, and so does every dashboard update that carries a status value: the
  update without a status is the only one of these operations that breaks it.
\<close>

lemma apply_update_with_status_invariant:
  "sp = Some s \<Longrightarrow> s \<noteq> [] \<Longrightarrow> completed_at_invariant (apply_update now pp sp t)"
  by (auto simp: apply_update_def completed_at_invariant_def Let_def split: option.splits)

lemma save_invariant:
  "list_all completed_at_invariant ts \<Longrightarrow> completed_at_invariant t \<Longrightarrow>
   list_all completed_at_invariant (save t ts)"
  by (induction ts) (auto simp: save_def)

lemma get_object_in_set: "get_object_or_404 ts i = Some t \<Longrightarrow> t \<in> set ts"
  by (auto simp: get_object_or_404_def find_Some_iff)

lemma submit_ticket_invariant:
  "db_invariant d \<Longrightarrow> after (submit_ticket now d r ti de dep) = Some d' \<Longrightarrow> db_invariant d'"
  by (auto simp: submit_ticket_def redirect_to_login_def after_def db_invariant_def
      completed_at_invariant_def Let_def split: option.splits if_splits)

lemma mark_all_completed_invariant:
  "db_invariant d \<Longrightarrow> after (mark_all_completed now d r) = Some d' \<Longrightarrow> db_invariant d'"
  by (fastforce simp: mark_all_completed_def redirect_to_login_def after_def db_invariant_def
      completed_at_invariant_def status_in_def list_all_iff split: option.splits if_splits)

lemma admin_dashboard_invariant:
  assumes "db_invariant d" and "after (admin_dashboard d r i pp dep) = Some d'"
  shows "db_invariant d'"
proof (cases "get_object_or_404 (tickets d) i")
  case None
  then show ?thesis using assms
    by (auto simp: admin_dashboard_def redirect_to_login_def after_def
        split: option.splits if_splits)
next
  case (Some t)
  then have "completed_at_invariant t"
    using assms(1) get_object_in_set [OF Some] by (simp add: db_invariant_def list_all_iff)
  then have inv: "\<And>t'. status t' = status t \<Longrightarrow> completed_at t' = completed_at t \<Longrightarrow>
      list_all completed_at_invariant (save t' (tickets d))"
    using assms(1) by (intro save_invariant) (auto simp: db_invariant_def completed_at_invariant_def)
  show ?thesis using assms Some
    by (auto simp: admin_dashboard_def redirect_to_login_def after_def db_invariant_def Let_def
        intro!: inv split: option.splits if_splits)
qed

lemma handler_dashboard_with_status_invariant:
  assumes "db_invariant d" and "sp = Some s" and "s \<noteq> []"
    and "after (handler_dashboard now d r i pp sp) = Some d'"
  shows "db_invariant d'"
  using assms save_invariant [of "tickets d"] apply_update_with_status_invariant [OF assms(2,3)]
  by (auto simp: handler_dashboard_def redirect_to_login_def after_def db_invariant_def Let_def
      completed_at_invariant_def split: option.splits if_splits)

lemma agent_dashboard_with_status_invariant:
  assumes "db_invariant d" and "sp = Some s" and "s \<noteq> []"
    and "after (agent_dashboard now d r i pp sp) = Some d'"
  shows "db_invariant d'"
  using assms save_invariant [of "tickets d"] apply_update_with_status_invariant [OF assms(2,3)]
  by (auto simp: agent_dashboard_def redirect_to_login_def after_def db_invariant_def Let_def
      split: option.splits if_splits)

end
